theory Spec2Isabelle
  imports Complex_Main
begin

section \<open>Python values\<close>

text \<open>
  \<open>py_run.py\<close> works on the object that \<open>response.json()\<close> returns: None, booleans,
  integers, floats, strings, lists and dicts with string keys, nested at will. Nothing
  in the script checks a type, so the model keeps all of them and every operation says
  which exception Python raises on the wrong one.

  A Python \<open>str\<close> is a sequence of Unicode code points, and \<open>[:10]\<close>, \<open>in\<close> and
  \<open>split\<close> count code points: a string is a list of code points. \<open>str\<close> turns an
  Isabelle literal into one.

  A dict is the list of its items in insertion order; a key is looked up with \<open>map_of\<close>.
\<close>

type_synonym codepoint = nat

type_synonym pystr = "codepoint list"

definition str :: "string \<Rightarrow> pystr" where
  "str s = map of_char s"

datatype pyfloat = Finite real | PosInf | NegInf | NaN

datatype pyval =
    PNone
  | PBool bool
  | PInt int
  | PFloat pyfloat
  | PStr pystr
  | PList "pyval list"
  | PDict "(pystr \<times> pyval) list"

datatype pyerr = KeyError | TypeError | AttributeError | ValueError | IndexError | OSError

text \<open>The truth value of an object, as \<open>x if c else y\<close> tests it.\<close>

fun truthy :: "pyval \<Rightarrow> bool" where
  "truthy PNone = False"
| "truthy (PBool b) = b"
| "truthy (PInt i) = (i \<noteq> 0)"
| "truthy (PFloat f) = (f \<noteq> Finite 0)"
| "truthy (PStr s) = (s \<noteq> [])"
| "truthy (PList xs) = (xs \<noteq> [])"
| "truthy (PDict kvs) = (kvs \<noteq> [])"

text \<open>\<open>x.get(k)\<close>: only a dict has the method; a missing key gives None.\<close>

fun py_get :: "pyval \<Rightarrow> pystr \<Rightarrow> pyerr + pyval" where
  "py_get (PDict kvs) k = Inr (case map_of kvs k of None \<Rightarrow> PNone | Some v \<Rightarrow> v)"
| "py_get _ k = Inl AttributeError"

text \<open>
  \<open>x[k]\<close> for a string \<open>k\<close>: KeyError on a dict without the key, TypeError on
  everything else (a list or a string wants an integer index, the rest is not
  subscriptable).
\<close>

fun getitem_key :: "pyval \<Rightarrow> pystr \<Rightarrow> pyerr + pyval" where
  "getitem_key (PDict kvs) k = (case map_of kvs k of None \<Rightarrow> Inl KeyError | Some v \<Rightarrow> Inr v)"
| "getitem_key _ k = Inl TypeError"

text \<open>
  \<open>x[0]\<close>: the first element of a list, the first character (a string of length one)
  of a string; a dict read from JSON has string keys only, so \<open>0\<close> is never a key.
\<close>

fun getitem0 :: "pyval \<Rightarrow> pyerr + pyval" where
  "getitem0 (PList xs) = (case xs of [] \<Rightarrow> Inl IndexError | x # _ \<Rightarrow> Inr x)"
| "getitem0 (PStr s) = (case s of [] \<Rightarrow> Inl IndexError | c # _ \<Rightarrow> Inr (PStr [c]))"
| "getitem0 (PDict kvs) = Inl KeyError"
| "getitem0 _ = Inl TypeError"

text \<open>
  \<open>x[:10]\<close>: a string or a list gives its first ten items, or all of them when there
  are fewer. None and numbers are not subscriptable; a dict refuses the slice as a key
  (TypeError up to Python 3.11).
\<close>

fun slice10 :: "pyval \<Rightarrow> pyerr + pyval" where
  "slice10 (PStr s) = Inr (PStr (take 10 s))"
| "slice10 (PList xs) = Inr (PList (take 10 xs))"
| "slice10 _ = Inl TypeError"

definition comma :: codepoint where
  "comma = of_char CHR '',''"

text \<open>
  \<open>',' in x\<close>: on a string the substring test, which for one character is membership;
  on a list, whether an element equals the string \<open>','\<close>; on a dict, whether \<open>','\<close> is
  a key; TypeError on None, booleans and numbers.
\<close>

fun contains_comma :: "pyval \<Rightarrow> pyerr + bool" where
  "contains_comma (PStr s) = Inr (comma \<in> set s)"
| "contains_comma (PList xs) = Inr (PStr [comma] \<in> set xs)"
| "contains_comma (PDict kvs) = Inr ([comma] \<in> set (map fst kvs))"
| "contains_comma _ = Inl TypeError"

text \<open>
  \<open>s.split(sep)\<close> for a separator of one character: \<open>s\<close> is cut at every occurrence,
  so a string with \<open>n\<close> separators gives \<open>n + 1\<close> parts, empty ones included.
\<close>

fun split :: "codepoint \<Rightarrow> pystr \<Rightarrow> pystr list" where
  "split sep [] = [[]]"
| "split sep (c # cs) =
     (let ps = split sep cs in if c = sep then [] # ps else (c # hd ps) # tl ps)"

text \<open>\<open>x.split(',')\<close>: only a string has the method.\<close>

fun py_split_comma :: "pyval \<Rightarrow> pyerr + pyval list" where
  "py_split_comma (PStr s) = Inr (map PStr (split comma s))"
| "py_split_comma _ = Inl AttributeError"

text \<open>\<open>a, b = xs\<close>: any number of items other than two raises ValueError.\<close>

fun unpack2 :: "pyval list \<Rightarrow> pyerr + pyval \<times> pyval" where
  "unpack2 [a, b] = Inr (a, b)"
| "unpack2 _ = Inl ValueError"

text \<open>
  \<open>for x in v\<close>: a list gives its elements, a string its characters, a dict its keys;
  anything else is not iterable.
\<close>

fun py_iter :: "pyval \<Rightarrow> pyerr + pyval list" where
  "py_iter (PList xs) = Inr xs"
| "py_iter (PStr s) = Inr (map (\<lambda>c. PStr [c]) s)"
| "py_iter (PDict kvs) = Inr (map (\<lambda>kv. PStr (fst kv)) kvs)"
| "py_iter _ = Inl TypeError"

section \<open>Data frames\<close>

text \<open>
  Of pandas the script uses a frame with named columns and no rows, a frame of one row
  built from a dict, and \<open>concat\<close> with \<open>ignore_index=True\<close>. A frame is its column
  names in order and its rows in order, a row holding one cell per column. \<open>concat\<close>
  keeps the columns of the first frame, adds the new ones of the second after them,
  stacks the rows and fills a cell that a row does not have with NaN.
\<close>

record dataframe =
  columns :: "pystr list"
  rows :: "(pystr \<times> pyval) list list"

definition DataFrame_columns :: "pystr list \<Rightarrow> dataframe" where
  "DataFrame_columns cs = \<lparr>columns = cs, rows = []\<rparr>"

definition DataFrame_record :: "(pystr \<times> pyval) list \<Rightarrow> dataframe" where
  "DataFrame_record r = \<lparr>columns = remdups (map fst r), rows = [r]\<rparr>"

definition reindex :: "pystr list \<Rightarrow> (pystr \<times> pyval) list \<Rightarrow> (pystr \<times> pyval) list" where
  "reindex cs r = map (\<lambda>c. (c, case map_of r c of None \<Rightarrow> PFloat NaN | Some v \<Rightarrow> v)) cs"

definition concat_frames :: "dataframe \<Rightarrow> dataframe \<Rightarrow> dataframe" where
  "concat_frames a b =
     (let cs = columns a @ filter (\<lambda>c. c \<notin> set (columns a)) (columns b)
      in \<lparr>columns = cs, rows = map (reindex cs) (rows a @ rows b)\<rparr>)"

text \<open>The cell of a row under a column name.\<close>

definition cell :: "(pystr \<times> pyval) list \<Rightarrow> string \<Rightarrow> pyval option" where
  "cell r c = map_of r (str c)"

section \<open>\<open>transform_data\<close>\<close>

definition output_columns :: "pystr list" where
  "output_columns = [str ''publication_date'', str ''job_type'', str ''job'',
                     str ''company'', str ''city'', str ''country'']"

definition not_available :: pyval where
  "not_available = PStr (str ''N/A'')"

text \<open>Line 72: \<open>job['company'].get('name') if job.get('company') else 'N/A'\<close>.\<close>

definition company_name :: "pyval \<Rightarrow> pyerr + pyval" where
  "company_name job =
     (case py_get job (str ''company'') of
        Inl e \<Rightarrow> Inl e
      | Inr c \<Rightarrow>
          if truthy c then
            (case getitem_key job (str ''company'') of
               Inl e \<Rightarrow> Inl e
             | Inr company \<Rightarrow> py_get company (str ''name''))
          else Inr not_available)"

text \<open>Line 73: \<open>job['locations'][0].get('name') if job.get('locations') else 'N/A'\<close>.\<close>

definition job_location :: "pyval \<Rightarrow> pyerr + pyval" where
  "job_location job =
     (case py_get job (str ''locations'') of
        Inl e \<Rightarrow> Inl e
      | Inr l \<Rightarrow>
          if truthy l then
            (case getitem_key job (str ''locations'') of
               Inl e \<Rightarrow> Inl e
             | Inr locations \<Rightarrow>
                 (case getitem0 locations of
                    Inl e \<Rightarrow> Inl e
                  | Inr first \<Rightarrow> py_get first (str ''name'')))
          else Inr not_available)"

text \<open>
  Line 74:
  \<open>job_city, job_country = job_location.split(',') if ',' in job_location else ('N/A', 'N/A')\<close>.
\<close>

definition city_country :: "pyval \<Rightarrow> pyerr + pyval \<times> pyval" where
  "city_country location =
     (case contains_comma location of
        Inl e \<Rightarrow> Inl e
      | Inr has_comma \<Rightarrow>
          if has_comma then
            (case py_split_comma location of
               Inl e \<Rightarrow> Inl e
             | Inr parts \<Rightarrow> unpack2 parts)
          else unpack2 [not_available, not_available])"

text \<open>Lines 73 and 74 together: the location, then the city and the country from it.\<close>

definition location_fields :: "pyval \<Rightarrow> pyerr + pyval \<times> pyval" where
  "location_fields job =
     (case job_location job of
        Inl e \<Rightarrow> Inl e
      | Inr location \<Rightarrow> city_country location)"

text \<open>Line 69: \<open>job.get('publication_date')[:10]\<close>.\<close>

definition publication_date_of :: "pyval \<Rightarrow> pyerr + pyval" where
  "publication_date_of job =
     (case py_get job (str ''publication_date'') of
        Inl e \<Rightarrow> Inl e
      | Inr raw_date \<Rightarrow> slice10 raw_date)"

text \<open>
  Lines 69 to 80, the body of the loop up to the dict of the new row. The statements
  run in the order of the source, so the first one that raises decides the exception.
\<close>

definition extract_row :: "pyval \<Rightarrow> pyerr + (pystr \<times> pyval) list" where
  "extract_row job =
     (case publication_date_of job of
        Inl e \<Rightarrow> Inl e
      | Inr publication_date \<Rightarrow>
     (case py_get job (str ''type'') of
        Inl e \<Rightarrow> Inl e
      | Inr job_type \<Rightarrow>
     (case py_get job (str ''name'') of
        Inl e \<Rightarrow> Inl e
      | Inr job_name \<Rightarrow>
     (case company_name job of
        Inl e \<Rightarrow> Inl e
      | Inr company \<Rightarrow>
     (case location_fields job of
        Inl e \<Rightarrow> Inl e
      | Inr (job_city, job_country) \<Rightarrow>
          Inr [(str ''publication_date'', publication_date),
               (str ''job_type'', job_type),
               (str ''job'', job_name),
               (str ''company'', company),
               (str ''city'', job_city),
               (str ''country'', job_country)])))))"

text \<open>
  The loop of lines 68 to 81: each job in turn, the frame growing by one row; an
  exception in the body leaves the loop, and nothing of the frame built so far is
  returned.
\<close>

fun transform_loop :: "dataframe \<Rightarrow> pyval list \<Rightarrow> pyerr + dataframe" where
  "transform_loop df [] = Inr df"
| "transform_loop df (job # jobs) =
     (case extract_row job of
        Inl e \<Rightarrow> Inl e
      | Inr r \<Rightarrow> transform_loop (concat_frames df (DataFrame_record r)) jobs)"

text \<open>
  \<open>transform_data\<close>: the handler of lines 85 to 87 prints the exception and raises it
  again, so the caller sees the exception of the body.
\<close>

definition transform_data :: "pyval \<Rightarrow> pyerr + dataframe" where
  "transform_data data =
     (case getitem_key data (str ''results'') of
        Inl e \<Rightarrow> Inl e
      | Inr results \<Rightarrow>
          (case py_iter results of
             Inl e \<Rightarrow> Inl e
           | Inr jobs \<Rightarrow> transform_loop (DataFrame_columns output_columns) jobs))"

section \<open>\<open>upload_to_s3\<close>\<close>

text \<open>
  \<open>subprocess.run(args)\<close> without \<open>check=True\<close> starts the program and waits for it:
  either the program cannot be started, which raises OSError, or it runs and exits with
  a status, which \<open>run\<close> returns in a \<open>CompletedProcess\<close> whatever the status is. The
  operating system is a parameter, a function from the argument vector to the outcome.
\<close>

datatype run_outcome = Exited int | NotStarted

definition destination :: pystr where
  "destination = str ''s3://py-project-jobs-s3bucket/input/jobs.csv''"

text \<open>The argument vector of line 131.\<close>

definition upload_command :: "pystr \<Rightarrow> pystr \<Rightarrow> pystr \<Rightarrow> pystr list" where
  "upload_command file_name bucket folder =
     [str ''aws'', str ''s3'', str ''cp'', file_name, destination]"

text \<open>
  \<open>upload_to_s3\<close> returns the commands it has run and either None (here \<open>()\<close>) or the
  exception, raised again by the handler of lines 135 to 137.
\<close>

definition upload_to_s3 ::
  "(pystr list \<Rightarrow> run_outcome) \<Rightarrow> pystr \<Rightarrow> pystr \<Rightarrow> pystr \<Rightarrow> pystr list list \<times> (pyerr + unit)" where
  "upload_to_s3 os file_name bucket folder =
     (let args = upload_command file_name bucket folder
      in ([args], case os args of Exited status \<Rightarrow> Inr () | NotStarted \<Rightarrow> Inl OSError))"

section \<open>The frame of the loop and example records\<close>

text \<open>
  The invariant of the loop: the frame has the six columns of line 60, and each of its
  rows has one cell under each of them, in that order.
\<close>

definition keyed :: "dataframe \<Rightarrow> bool" where
  "keyed df \<longleftrightarrow> columns df = output_columns \<and> list_all (\<lambda>r. map fst r = output_columns) (rows df)"

text \<open>\<open>isinstance(x, str)\<close>.\<close>

fun is_str :: "pyval \<Rightarrow> bool" where
  "is_str (PStr s) = True"
| "is_str _ = False"

text \<open>
  A listing as the API returns it, with the location name left open, and a listing
  without \<open>publication_date\<close>.
\<close>

definition job_located :: "string \<Rightarrow> pyval" where
  "job_located place =
     PDict [(str ''publication_date'', PStr (str ''2023-05-01T12:00:00Z'')),
            (str ''type'', PStr (str ''external'')),
            (str ''name'', PStr (str ''Data Engineer'')),
            (str ''company'', PDict [(str ''name'', PStr (str ''Acme''))]),
            (str ''locations'', PList [PDict [(str ''name'', PStr (str place))]])]"

definition job_without_date :: pyval where
  "job_without_date =
     PDict [(str ''type'', PStr (str ''external'')),
            (str ''name'', PStr (str ''Data Engineer''))]"

text \<open>
  The body of a response with the given listings, and the row that \<open>job_located\<close>
  gives when its location yields the city and the country named.
\<close>

definition response :: "pyval list \<Rightarrow> pyval" where
  "response jobs = PDict [(str ''results'', PList jobs)]"

definition located_row :: "string \<Rightarrow> string \<Rightarrow> (pystr \<times> pyval) list" where
  "located_row city country =
     [(str ''publication_date'', PStr (str ''2023-05-01'')),
      (str ''job_type'', PStr (str ''external'')),
      (str ''job'', PStr (str ''Data Engineer'')),
      (str ''company'', PStr (str ''Acme'')),
      (str ''city'', PStr (str city)),
      (str ''country'', PStr (str country))]"

section \<open>Lemmas about the operations\<close>


lemma str_eq_iff: "str a = str b \<longleftrightarrow> a = b"
  by (simp add: str_def inj_on_def)

lemma distinct_output_columns: "distinct output_columns"
  by (simp add: output_columns_def str_eq_iff)

lemma length_output_columns: "length output_columns = 6"
  by (simp add: output_columns_def)

lemma extract_row_keys: "extract_row job = Inr r \<Longrightarrow> map fst r = output_columns"
  by (auto simp: extract_row_def output_columns_def split: sum.splits prod.splits)

lemma reindex_same:
  assumes "map fst r = cs" and "distinct cs"
  shows "reindex cs r = r"
proof -
  have "map ((\<lambda>c. (c, case map_of r c of None \<Rightarrow> PFloat NaN | Some v \<Rightarrow> v)) \<circ> fst) r = map (\<lambda>kv. kv) r"
  proof (rule map_cong [OF refl])
    fix kv assume "kv \<in> set r"
    with assms have "map_of r (fst kv) = Some (snd kv)" by simp
    then show "((\<lambda>c. (c, case map_of r c of None \<Rightarrow> PFloat NaN | Some v \<Rightarrow> v)) \<circ> fst) kv = kv"
      by simp
  qed
  then show ?thesis using assms(1) by (auto simp: reindex_def)
qed

lemma concat_row:
  assumes "keyed df" and "map fst r = output_columns"
  shows "concat_frames df (DataFrame_record r) = \<lparr>columns = output_columns, rows = rows df @ [r]\<rparr>"
proof -
  have cs: "columns df @ filter (\<lambda>c. c \<notin> set (columns df)) (columns (DataFrame_record r)) = output_columns"
    using assms distinct_output_columns by (simp add: keyed_def DataFrame_record_def)
  have "map (reindex output_columns) (rows df) = rows df"
    using assms(1) reindex_same [OF _ distinct_output_columns]
    by (auto simp: keyed_def list_all_iff intro!: map_idI)
  moreover have "reindex output_columns r = r"
    using assms(2) distinct_output_columns by (rule reindex_same)
  ultimately show ?thesis
    using cs by (simp add: concat_frames_def Let_def DataFrame_record_def)
qed

lemma transform_loop_Inr:
  assumes "keyed df" and "list_all (\<lambda>j. \<exists>r. extract_row j = Inr r) jobs"
  shows "\<exists>df'. transform_loop df jobs = Inr df' \<and> columns df' = output_columns
          \<and> map Inr (rows df') = map Inr (rows df) @ map extract_row jobs"
  using assms
proof (induction jobs arbitrary: df)
  case Nil
  then show ?case by (simp add: keyed_def)
next
  case (Cons j jobs)
  from Cons.prems(2) obtain r where r: "extract_row j = Inr r" by auto
  let ?df = "concat_frames df (DataFrame_record r)"
  have eq: "?df = \<lparr>columns = output_columns, rows = rows df @ [r]\<rparr>"
    using concat_row [OF Cons.prems(1) extract_row_keys [OF r]] .
  have k: "keyed ?df"
    using Cons.prems(1) extract_row_keys [OF r] by (simp add: eq keyed_def)
  from Cons.IH [OF k] Cons.prems(2) obtain df' where
    "transform_loop ?df jobs = Inr df'" "columns df' = output_columns"
    "map Inr (rows df') = map Inr (rows ?df) @ map extract_row jobs"
    by auto
  then show ?case using r by (simp add: eq)
qed

lemma transform_loop_Inl:
  "job \<in> set jobs \<Longrightarrow> extract_row job = Inl e \<Longrightarrow> \<exists>e'. transform_loop df jobs = Inl e'"
proof (induction jobs arbitrary: df)
  case Nil
  then show ?case by simp
next
  case (Cons j jobs)
  show ?case
  proof (cases "extract_row j")
    case (Inl e0)
    then show ?thesis by simp
  next
    case (Inr r)
    with Cons.prems have "job \<in> set jobs" by auto
    from Cons.IH [OF this Cons.prems(2)] show ?thesis using Inr by simp
  qed
qed

lemma keyed_empty: "keyed (DataFrame_columns output_columns)"
  by (simp add: keyed_def DataFrame_columns_def)

lemma split_not_Nil: "split sep s \<noteq> []"
  by (induction s) (auto simp: Let_def)

lemma length_split: "length (split sep s) = Suc (count_list s sep)"
  by (induction s) (auto simp: Let_def split_not_Nil)

lemmas eval_defs = extract_row_def publication_date_of_def company_name_def job_location_def
  location_fields_def city_country_def not_available_def

lemma extract_row_InrE:
  assumes "extract_row job = Inr r"
  obtains d t n c ci co where
    "publication_date_of job = Inr d" "py_get job (str ''type'') = Inr t"
    "py_get job (str ''name'') = Inr n" "company_name job = Inr c"
    "location_fields job = Inr (ci, co)"
    "r = [(str ''publication_date'', d), (str ''job_type'', t), (str ''job'', n),
          (str ''company'', c), (str ''city'', ci), (str ''country'', co)]"
  using assms by (auto simp: extract_row_def split: sum.splits prod.splits)

lemma transform_data_iter:
  assumes "getitem_key data (str ''results'') = Inr results" and "py_iter results = Inr jobs"
  shows "transform_data data = transform_loop (DataFrame_columns output_columns) jobs"
  using assms by (simp add: transform_data_def)

lemma unpack2_strings:
  assumes "unpack2 (map PStr ps) = Inr (a, b)"
  shows "is_str a \<and> is_str b"
proof (cases ps)
  case Nil
  with assms show ?thesis by simp
next
  case (Cons p ps')
  note outer = Cons
  show ?thesis
  proof (cases ps')
    case Nil
    with assms outer show ?thesis by simp
  next
    case (Cons q ps'')
    with assms outer show ?thesis by (cases ps'') auto
  qed
qed

lemma city_country_strings:
  assumes "city_country location = Inr (a, b)"
  shows "is_str a \<and> is_str b"
proof (cases "contains_comma location")
  case (Inl e)
  with assms show ?thesis by (simp add: city_country_def)
next
  case (Inr has_comma)
  show ?thesis
  proof (cases has_comma)
    case False
    with assms Inr show ?thesis by (auto simp: city_country_def not_available_def)
  next
    case True
    with assms Inr obtain s where "location = PStr s"
      by (cases location) (auto simp: city_country_def)
    with assms Inr True show ?thesis
      using unpack2_strings [of "split comma s" a b] by (simp add: city_country_def)
  qed
qed

lemma location_fields_strings:
  "location_fields job = Inr (a, b) \<Longrightarrow> is_str a \<and> is_str b"
  by (auto simp: location_fields_def split: sum.splits dest: city_country_strings)

lemma publication_date_not_None: "publication_date_of job = Inr d \<Longrightarrow> d \<noteq> PNone"
proof -
  have "slice10 v = Inr d \<Longrightarrow> d \<noteq> PNone" for v
    by (cases v) auto
  then show "publication_date_of job = Inr d \<Longrightarrow> d \<noteq> PNone"
    by (auto simp: publication_date_of_def split: sum.splits)
qed

lemma city_country_no_comma:
  "comma \<notin> set s \<Longrightarrow> city_country (PStr s) = Inr (PStr (str ''N/A''), PStr (str ''N/A''))"
  by (simp add: city_country_def not_available_def)

lemma city_country_not_available:
  "city_country not_available = Inr (PStr (str ''N/A''), PStr (str ''N/A''))"
  by (simp add: city_country_def not_available_def str_def comma_def)

lemma austin_row: "extract_row (job_located ''Austin,USA'') = Inr (located_row ''Austin'' ''USA'')"
  by (simp add: job_located_def located_row_def eval_defs str_def comma_def)

lemma london_row: "extract_row (job_located ''London, UK'') = Inr (located_row ''London'' '' UK'')"
  by (simp add: job_located_def located_row_def eval_defs str_def comma_def)

lemma remote_row: "extract_row (job_located ''Remote'') = Inr (located_row ''N/A'' ''N/A'')"
  by (simp add: job_located_def located_row_def eval_defs str_def comma_def)

lemma job_without_date_raises: "extract_row job_without_date = Inl TypeError"
  by (simp add: job_without_date_def eval_defs str_def)

lemma cell_located_row:
  "cell (located_row a b) ''publication_date'' = Some (PStr (str ''2023-05-01''))"
  "cell (located_row a b) ''job_type'' = Some (PStr (str ''external''))"
  "cell (located_row a b) ''job'' = Some (PStr (str ''Data Engineer''))"
  "cell (located_row a b) ''company'' = Some (PStr (str ''Acme''))"
  "cell (located_row a b) ''city'' = Some (PStr (str a))"
  "cell (located_row a b) ''country'' = Some (PStr (str b))"
  by (simp_all add: cell_def located_row_def str_eq_iff)

lemma getitem_response: "getitem_key (response jobs) (str ''results'') = Inr (PList jobs)"
  by (simp add: response_def)

text \<open>
  Line 74 on a string: a name with exactly one comma gives the text before it and the
  text after it, untrimmed; a name with a second comma gives more than two parts, and
  the unpacking raises ValueError.
\<close>

lemma split_no_sep: "sep \<notin> set s \<Longrightarrow> split sep s = [s]"
  by (induction s) (auto simp: Let_def)

lemma split_at_first:
  "split sep (pre @ sep # post) = pre # split sep post" if "sep \<notin> set pre"
  using that by (induction pre) (auto simp: Let_def)

lemma city_country_one_comma:
  assumes "comma \<notin> set city" and "comma \<notin> set country"
  shows "city_country (PStr (city @ comma # country)) = Inr (PStr city, PStr country)"
  using assms by (simp add: city_country_def split_at_first split_no_sep)

lemma city_country_more_commas:
  assumes "comma \<notin> set city" and "comma \<in> set rest"
  shows "city_country (PStr (city @ comma # rest)) = Inl ValueError"
proof -
  have "2 \<le> length (split comma rest)"
    using assms(2) count_list_0_iff [of rest comma]
    by (cases "count_list rest comma") (simp_all add: length_split)
  then obtain a b ps where "split comma rest = a # b # ps"
    by (cases "split comma rest"; cases "tl (split comma rest)") auto
  with assms(1) show ?thesis
    by (simp add: city_country_def split_at_first)
qed

section \<open>The claims\<close>

text \<open>
  C1. The claim: a location name with a comma is split at its first comma only, so
  \<open>"New York, NY, USA"\<close> gives the city \<open>"New York"\<close> and the country \<open>" NY, USA"\<close>.
  Line 74 calls \<open>split(',')\<close>, which cuts at every comma, and unpacks the parts into
  two names: on this record there are three parts, the unpacking raises ValueError, and
  with it \<open>transform_data\<close> as a whole.
\<close>

theorem location_with_two_commas_raises:
  "location_fields (job_located ''New York, NY, USA'') = Inl ValueError
   \<and> extract_row (job_located ''New York, NY, USA'') = Inl ValueError
   \<and> transform_data (response [job_located ''New York, NY, USA'']) = Inl ValueError"
  by (simp add: transform_data_def response_def job_located_def eval_defs str_def comma_def)

text \<open>
  C2. The claim: without a \<open>company\<close> key the company is \<open>"N/A"\<close>; with a company
  mapping that has no \<open>name\<close>, the empty mapping included, it is None; with a
  \<open>name\<close> it is that name. Line 72 tests \<open>job.get('company')\<close> for truth, and an empty
  dict is false: \<open>company: {}\<close> gives \<open>"N/A"\<close>, not None.
\<close>

theorem company_empty_mapping_counterexample:
  "company_name (PDict [(str ''publication_date'', PStr (str ''2023-05-01T12:00:00Z'')),
                        (str ''company'', PDict [])]) = Inr (PStr (str ''N/A''))
   \<and> PStr (str ''N/A'') \<noteq> PNone
   \<and> extract_row (PDict [(str ''publication_date'', PStr (str ''2023-05-01T12:00:00Z'')),
                        (str ''company'', PDict [])])
     = Inr [(str ''publication_date'', PStr (str ''2023-05-01'')),
            (str ''job_type'', PNone),
            (str ''job'', PNone),
            (str ''company'', PStr (str ''N/A'')),
            (str ''city'', PStr (str ''N/A'')),
            (str ''country'', PStr (str ''N/A''))]"
  by (simp add: eval_defs str_def comma_def)

text \<open>
  C2 as amended: the company is \<open>"N/A"\<close> when the record has no \<open>company\<close> key or the
  value under it is false (None, the empty mapping); it is None when the company
  mapping is not empty and has no \<open>name\<close>; it is the value under \<open>name\<close>, unchanged,
  when there is one. None and \<open>"N/A"\<close> differ, and the row carries that value in its
  \<open>company\<close> cell.
\<close>

theorem company_fallback:
  "(map_of kvs (str ''company'') = None \<longrightarrow> company_name (PDict kvs) = Inr (PStr (str ''N/A'')))
   \<and> (map_of kvs (str ''company'') = Some c \<and> \<not> truthy c \<longrightarrow>
        company_name (PDict kvs) = Inr (PStr (str ''N/A'')))
   \<and> (map_of kvs (str ''company'') = Some (PDict ckvs) \<and> ckvs \<noteq> []
        \<and> map_of ckvs (str ''name'') = None \<longrightarrow>
        company_name (PDict kvs) = Inr PNone)
   \<and> (map_of kvs (str ''company'') = Some (PDict ckvs) \<and> map_of ckvs (str ''name'') = Some v \<longrightarrow>
        company_name (PDict kvs) = Inr v)
   \<and> PNone \<noteq> PStr (str ''N/A'')
   \<and> (extract_row (PDict kvs) = Inr r \<longrightarrow>
        (\<exists>x. company_name (PDict kvs) = Inr x \<and> cell r ''company'' = Some x))"
proof -
  have row: "\<exists>x. company_name (PDict kvs) = Inr x \<and> cell r ''company'' = Some x"
    if "extract_row (PDict kvs) = Inr r"
    using that by (elim extract_row_InrE) (simp add: cell_def str_eq_iff)
  have name: "company_name (PDict kvs) = Inr v"
    if "map_of kvs (str ''company'') = Some (PDict ckvs)" "map_of ckvs (str ''name'') = Some v"
  proof -
    from that(2) have "ckvs \<noteq> []" by auto
    with that show ?thesis by (simp add: company_name_def)
  qed
  show ?thesis
    using row name by (auto simp: company_name_def not_available_def)
qed

theorem company_fallback_witness:
  "company_name (PDict [(str ''name'', PStr (str ''Data Engineer''))]) = Inr (PStr (str ''N/A''))
   \<and> company_name (PDict [(str ''company'', PNone)]) = Inr (PStr (str ''N/A''))
   \<and> company_name (PDict [(str ''company'', PDict [])]) = Inr (PStr (str ''N/A''))
   \<and> company_name (PDict [(str ''company'', PDict [(str ''id'', PInt 7)])]) = Inr PNone
   \<and> company_name (PDict [(str ''company'', PDict [(str ''name'', PStr (str ''Acme''))])])
       = Inr (PStr (str ''Acme''))
   \<and> extract_row (job_located ''Austin,USA'') = Inr (located_row ''Austin'' ''USA'')
   \<and> company_name (job_located ''Austin,USA'') = Inr (PStr (str ''Acme''))
   \<and> cell (located_row ''Austin'' ''USA'') ''company'' = Some (PStr (str ''Acme''))"
proof -
  have 1: "company_name (PDict [(str ''name'', PStr (str ''Data Engineer''))])
       = Inr (PStr (str ''N/A''))"
    using company_fallback [of "[(str ''name'', PStr (str ''Data Engineer''))]"]
    by (simp add: str_eq_iff)
  have 2: "company_name (PDict [(str ''company'', PNone)]) = Inr (PStr (str ''N/A''))"
    using company_fallback [of "[(str ''company'', PNone)]" PNone]
    by simp
  have 3: "company_name (PDict [(str ''company'', PDict [])]) = Inr (PStr (str ''N/A''))"
    using company_fallback [of "[(str ''company'', PDict [])]" "PDict []"]
    by simp
  have 4: "company_name (PDict [(str ''company'', PDict [(str ''id'', PInt 7)])]) = Inr PNone"
    using company_fallback
      [of "[(str ''company'', PDict [(str ''id'', PInt 7)])]" _ "[(str ''id'', PInt 7)]"]
    by (simp add: str_eq_iff)
  have 5: "company_name (PDict [(str ''company'', PDict [(str ''name'', PStr (str ''Acme''))])])
       = Inr (PStr (str ''Acme''))"
    using company_fallback
      [of "[(str ''company'', PDict [(str ''name'', PStr (str ''Acme''))])]" _
        "[(str ''name'', PStr (str ''Acme''))]" "PStr (str ''Acme'')"]
    by simp
  have "extract_row (job_located ''Austin,USA'') = Inr (located_row ''Austin'' ''USA'') \<longrightarrow>
      (\<exists>x. company_name (job_located ''Austin,USA'') = Inr x
          \<and> cell (located_row ''Austin'' ''USA'') ''company'' = Some x)"
    unfolding job_located_def using company_fallback by blast
  with austin_row obtain x where
    x: "company_name (job_located ''Austin,USA'') = Inr x"
      "cell (located_row ''Austin'' ''USA'') ''company'' = Some x"
    by blast
  from x(2) have "x = PStr (str ''Acme'')"
    by (simp add: cell_located_row)
  with 1 2 3 4 5 x austin_row show ?thesis by simp
qed

text \<open>
  C3. Building the table is all or nothing: when the extraction of one record of the
  collection fails, wherever it stands, \<open>transform_data\<close> raises and returns no frame,
  not even the rows built before.
\<close>

theorem transform_data_all_or_nothing:
  assumes "getitem_key data (str ''results'') = Inr results"
    and "py_iter results = Inr jobs"
    and "job \<in> set jobs"
    and "extract_row job = Inl e"
  shows "(\<exists>e'. transform_data data = Inl e') \<and> (\<forall>df. transform_data data \<noteq> Inr df)"
proof -
  from transform_loop_Inl [OF assms(3,4)] obtain e' where
    "transform_loop (DataFrame_columns output_columns) jobs = Inl e'" by blast
  then show ?thesis
    by (simp add: transform_data_iter [OF assms(1,2)])
qed

theorem transform_data_all_or_nothing_witness:
  "extract_row (job_located ''Austin,USA'') = Inr (located_row ''Austin'' ''USA'')
   \<and> extract_row (job_located ''Remote'') = Inr (located_row ''N/A'' ''N/A'')
   \<and> extract_row (job_located ''London, UK'') = Inr (located_row ''London'' '' UK'')
   \<and> extract_row job_without_date = Inl TypeError
   \<and> isl (transform_data (response [job_located ''Austin,USA'', job_located ''Remote'',
                                     job_located ''London, UK'', job_without_date]))"
proof -
  let ?jobs = "[job_located ''Austin,USA'', job_located ''Remote'', job_located ''London, UK'',
                job_without_date]"
  have i: "py_iter (PList ?jobs) = Inr ?jobs" by simp
  have m: "job_without_date \<in> set ?jobs" by simp
  from transform_data_all_or_nothing [OF getitem_response i m job_without_date_raises]
  have "isl (transform_data (response ?jobs))" by auto
  with austin_row remote_row london_row job_without_date_raises show ?thesis by simp
qed

text \<open>
  C4. The claim: a collection of N records that all extract gives a frame of N rows,
  in the order of the records, with the five fixed columns. Line 60 names six columns,
  and the frame of a single record already has the six.
\<close>

theorem five_columns_counterexample:
  "transform_data (response [job_located ''Austin,USA''])
     = Inr \<lparr>columns = [str ''publication_date'', str ''job_type'', str ''job'',
                       str ''company'', str ''city'', str ''country''],
            rows = [located_row ''Austin'' ''USA'']\<rparr>
   \<and> length [str ''publication_date'', str ''job_type'', str ''job'',
              str ''company'', str ''city'', str ''country''] \<noteq> 5"
proof -
  have k: "list_all (\<lambda>job. \<exists>r. extract_row job = Inr r) [job_located ''Austin,USA'']"
    using austin_row by simp
  from transform_loop_Inr [OF keyed_empty k] obtain df where
    df: "transform_loop (DataFrame_columns output_columns) [job_located ''Austin,USA''] = Inr df"
      "columns df = output_columns"
      "map Inr (rows df) = map Inr (rows (DataFrame_columns output_columns))
         @ map extract_row [job_located ''Austin,USA'']"
    by blast
  from df(3) have "rows df = [located_row ''Austin'' ''USA'']"
    by (auto simp: DataFrame_columns_def austin_row map_eq_Cons_conv)
  with df(2) have "df = \<lparr>columns = output_columns, rows = [located_row ''Austin'' ''USA'']\<rparr>"
    by simp
  with df(1) show ?thesis
    by (simp add: transform_data_def response_def output_columns_def)
qed

text \<open>
  C4 as amended: when every record of the collection extracts, \<open>transform_data\<close> returns
  a frame with the six columns \<open>publication_date\<close>, \<open>job_type\<close>, \<open>job\<close>, \<open>company\<close>,
  \<open>city\<close>, \<open>country\<close> in this order and one row for each record, the rows being the
  extracted rows of the records in the order of the input.
\<close>

theorem transform_data_rows_and_columns:
  assumes "getitem_key data (str ''results'') = Inr results"
    and "py_iter results = Inr jobs"
    and "list_all (\<lambda>job. \<exists>r. extract_row job = Inr r) jobs"
  shows "\<exists>df. transform_data data = Inr df
           \<and> columns df = [str ''publication_date'', str ''job_type'', str ''job'',
                           str ''company'', str ''city'', str ''country'']
           \<and> length (rows df) = length jobs
           \<and> map Inr (rows df) = map extract_row jobs"
proof -
  from transform_loop_Inr [OF keyed_empty assms(3)] obtain df where
    df: "transform_loop (DataFrame_columns output_columns) jobs = Inr df"
      "columns df = output_columns"
      "map Inr (rows df) = map Inr (rows (DataFrame_columns output_columns)) @ map extract_row jobs"
    by blast
  from df(3) have m: "map Inr (rows df) = map extract_row jobs"
    by (simp add: DataFrame_columns_def)
  then have "length (map Inr (rows df) :: (pyerr + (pystr \<times> pyval) list) list)
      = length (map extract_row jobs)" by simp
  then have "length (rows df) = length jobs" by simp
  with df(1,2) m show ?thesis
    by (simp add: transform_data_iter [OF assms(1,2)] output_columns_def)
qed

theorem transform_data_rows_and_columns_witness:
  "list_all (\<lambda>job. \<exists>r. extract_row job = Inr r)
     [job_located ''London, UK'', job_located ''Remote'', job_located ''Austin,USA'']
   \<and> (\<exists>df. transform_data (response [job_located ''London, UK'', job_located ''Remote'',
                                       job_located ''Austin,USA'']) = Inr df
         \<and> columns df = [str ''publication_date'', str ''job_type'', str ''job'',
                         str ''company'', str ''city'', str ''country'']
         \<and> length (rows df) = 3
         \<and> rows df = [located_row ''London'' '' UK'', located_row ''N/A'' ''N/A'',
                      located_row ''Austin'' ''USA''])"
proof -
  let ?jobs = "[job_located ''London, UK'', job_located ''Remote'', job_located ''Austin,USA'']"
  have i: "py_iter (PList ?jobs) = Inr ?jobs" by simp
  have k: "list_all (\<lambda>job. \<exists>r. extract_row job = Inr r) ?jobs"
    by (simp add: austin_row london_row remote_row)
  from transform_data_rows_and_columns [OF getitem_response i k] obtain df where
    df: "transform_data (response ?jobs) = Inr df"
      "columns df = [str ''publication_date'', str ''job_type'', str ''job'',
                     str ''company'', str ''city'', str ''country'']"
      "length (rows df) = length ?jobs"
      "map Inr (rows df) = map extract_row ?jobs"
    by blast
  from df(4) have "rows df = [located_row ''London'' '' UK'', located_row ''N/A'' ''N/A'',
                              located_row ''Austin'' ''USA'']"
    by (auto simp: austin_row london_row remote_row map_eq_Cons_conv)
  with df(1,2,3) k show ?thesis by simp
qed

text \<open>
  C5. The claim: after a successful extraction every field of the row is a string and
  none is null. \<open>job.get('type')\<close> and \<open>job.get('name')\<close> have no default: a record
  with a \<open>publication_date\<close> and nothing else extracts, and its \<open>job_type\<close> and \<open>job\<close>
  are None.
\<close>

theorem null_field_counterexample:
  "extract_row (PDict [(str ''publication_date'', PStr (str ''2023-05-01T12:00:00Z''))])
     = Inr [(str ''publication_date'', PStr (str ''2023-05-01'')),
            (str ''job_type'', PNone),
            (str ''job'', PNone),
            (str ''company'', PStr (str ''N/A'')),
            (str ''city'', PStr (str ''N/A'')),
            (str ''country'', PStr (str ''N/A''))]
   \<and> cell [(str ''publication_date'', PStr (str ''2023-05-01'')),
            (str ''job_type'', PNone),
            (str ''job'', PNone),
            (str ''company'', PStr (str ''N/A'')),
            (str ''city'', PStr (str ''N/A'')),
            (str ''country'', PStr (str ''N/A''))] ''job_type'' = Some PNone
   \<and> \<not> is_str PNone"
  by (simp add: eval_defs cell_def str_def comma_def)

text \<open>
  C5 as amended: after a successful extraction the record is a mapping and the row has
  a cell under each of the six columns; \<open>city\<close> and \<open>country\<close> are strings and
  \<open>publication_date\<close> is not None; \<open>job_type\<close> and \<open>job\<close> are the values under \<open>type\<close>
  and \<open>name\<close> as they are, and None when the key is absent; \<open>company\<close> is what line 72
  gives, None included.
\<close>

theorem extracted_fields:
  assumes "extract_row job = Inr r"
  shows "\<exists>kvs. job = PDict kvs
         \<and> map fst r = [str ''publication_date'', str ''job_type'', str ''job'',
                        str ''company'', str ''city'', str ''country'']
         \<and> (\<exists>a b. cell r ''city'' = Some (PStr a) \<and> cell r ''country'' = Some (PStr b))
         \<and> (\<exists>d. cell r ''publication_date'' = Some d \<and> d \<noteq> PNone)
         \<and> cell r ''job_type''
             = Some (case map_of kvs (str ''type'') of None \<Rightarrow> PNone | Some v \<Rightarrow> v)
         \<and> cell r ''job''
             = Some (case map_of kvs (str ''name'') of None \<Rightarrow> PNone | Some v \<Rightarrow> v)
         \<and> (\<exists>c. cell r ''company'' = Some c \<and> company_name job = Inr c)"
  using assms
proof (rule extract_row_InrE)
  fix d t n c ci co
  assume d: "publication_date_of job = Inr d"
    and t: "py_get job (str ''type'') = Inr t"
    and n: "py_get job (str ''name'') = Inr n"
    and c: "company_name job = Inr c"
    and l: "location_fields job = Inr (ci, co)"
    and r: "r = [(str ''publication_date'', d), (str ''job_type'', t), (str ''job'', n),
                 (str ''company'', c), (str ''city'', ci), (str ''country'', co)]"
  from t obtain kvs where job: "job = PDict kvs"
    by (cases job) auto
  from location_fields_strings [OF l] obtain a b where ab: "ci = PStr a" "co = PStr b"
    by (cases ci; cases co) auto
  from publication_date_not_None [OF d] have "d \<noteq> PNone" .
  with r ab t n c job show ?thesis
    by (auto simp: cell_def str_eq_iff)
qed

theorem extracted_fields_witness:
  "extract_row (job_located ''London, UK'') = Inr (located_row ''London'' '' UK'')
   \<and> map fst (located_row ''London'' '' UK'')
       = [str ''publication_date'', str ''job_type'', str ''job'',
          str ''company'', str ''city'', str ''country'']
   \<and> cell (located_row ''London'' '' UK'') ''city'' = Some (PStr (str ''London''))
   \<and> cell (located_row ''London'' '' UK'') ''country'' = Some (PStr (str '' UK''))
   \<and> cell (located_row ''London'' '' UK'') ''publication_date'' = Some (PStr (str ''2023-05-01''))
   \<and> cell (located_row ''London'' '' UK'') ''job_type'' = Some (PStr (str ''external''))
   \<and> cell (located_row ''London'' '' UK'') ''job'' = Some (PStr (str ''Data Engineer''))
   \<and> cell (located_row ''London'' '' UK'') ''company'' = Some (PStr (str ''Acme''))
   \<and> company_name (job_located ''London, UK'') = Inr (PStr (str ''Acme''))"
proof -
  note fields = extracted_fields [OF london_row]
  from fields have m: "map fst (located_row ''London'' '' UK'')
       = [str ''publication_date'', str ''job_type'', str ''job'',
          str ''company'', str ''city'', str ''country'']"
    by (elim exE conjE)
  from fields have c: "company_name (job_located ''London, UK'')
       = Inr (the (cell (located_row ''London'' '' UK'') ''company''))"
    by (elim exE conjE) simp
  from m c london_row show ?thesis
    by (simp add: cell_located_row)
qed

text \<open>
  C6. When \<open>publication_date\<close> is present and a string, the extracted
  \<open>publication_date\<close> is its first ten characters, and the whole string when it has
  fewer than ten: \<open>"2023-05-01T12:00:00Z"\<close> gives \<open>"2023-05-01"\<close>.
\<close>

theorem publication_date_first_ten:
  assumes "map_of kvs (str ''publication_date'') = Some (PStr s)"
  shows "publication_date_of (PDict kvs) = Inr (PStr (take 10 s))
         \<and> (length s < 10 \<longrightarrow> publication_date_of (PDict kvs) = Inr (PStr s))
         \<and> (extract_row (PDict kvs) = Inr r \<longrightarrow>
              cell r ''publication_date'' = Some (PStr (take 10 s)))"
proof -
  have d: "publication_date_of (PDict kvs) = Inr (PStr (take 10 s))"
    using assms by (simp add: publication_date_of_def)
  have "cell r ''publication_date'' = Some (PStr (take 10 s))"
    if "extract_row (PDict kvs) = Inr r"
    using that d by (elim extract_row_InrE) (simp add: cell_def)
  with d show ?thesis by simp
qed

theorem publication_date_first_ten_witness:
  "publication_date_of (job_located ''Austin,USA'') = Inr (PStr (str ''2023-05-01''))
   \<and> extract_row (job_located ''Austin,USA'') = Inr (located_row ''Austin'' ''USA'')
   \<and> cell (located_row ''Austin'' ''USA'') ''publication_date'' = Some (PStr (str ''2023-05-01''))
   \<and> length (str ''2023-05'') < 10
   \<and> publication_date_of (PDict [(str ''publication_date'', PStr (str ''2023-05''))])
       = Inr (PStr (str ''2023-05''))"
proof -
  have t: "take 10 (str ''2023-05-01T12:00:00Z'') = str ''2023-05-01''"
    by (simp add: str_def)
  have "publication_date_of (job_located ''Austin,USA'')
          = Inr (PStr (take 10 (str ''2023-05-01T12:00:00Z'')))
        \<and> (length (str ''2023-05-01T12:00:00Z'') < 10 \<longrightarrow>
             publication_date_of (job_located ''Austin,USA'')
               = Inr (PStr (str ''2023-05-01T12:00:00Z'')))
        \<and> (extract_row (job_located ''Austin,USA'') = Inr (located_row ''Austin'' ''USA'') \<longrightarrow>
             cell (located_row ''Austin'' ''USA'') ''publication_date''
               = Some (PStr (take 10 (str ''2023-05-01T12:00:00Z''))))"
    unfolding job_located_def by (rule publication_date_first_ten) simp
  with austin_row t have long:
    "publication_date_of (job_located ''Austin,USA'') = Inr (PStr (str ''2023-05-01''))"
    "cell (located_row ''Austin'' ''USA'') ''publication_date'' = Some (PStr (str ''2023-05-01''))"
    by simp_all
  have l: "length (str ''2023-05'') < 10"
    by (simp add: str_def)
  have "publication_date_of (PDict [(str ''publication_date'', PStr (str ''2023-05''))])
       = Inr (PStr (str ''2023-05''))"
    using publication_date_first_ten
      [of "[(str ''publication_date'', PStr (str ''2023-05''))]" "str ''2023-05''"] l
    by simp
  with long l austin_row show ?thesis by simp
qed

text \<open>
  C7. When \<open>locations\<close> is absent or empty, or the name of the first location is a
  string without a comma, the city and the country are both \<open>"N/A"\<close>.
\<close>

theorem no_location_or_no_comma:
  assumes "map_of kvs (str ''locations'') = None
           \<or> map_of kvs (str ''locations'') = Some (PList [])
           \<or> (\<exists>l rest s. map_of kvs (str ''locations'') = Some (PList (PDict l # rest))
                \<and> map_of l (str ''name'') = Some (PStr s) \<and> comma \<notin> set s)"
  shows "location_fields (PDict kvs) = Inr (PStr (str ''N/A''), PStr (str ''N/A''))
         \<and> (extract_row (PDict kvs) = Inr r \<longrightarrow>
              cell r ''city'' = Some (PStr (str ''N/A''))
              \<and> cell r ''country'' = Some (PStr (str ''N/A'')))"
proof -
  have loc: "location_fields (PDict kvs) = Inr (PStr (str ''N/A''), PStr (str ''N/A''))"
    using assms city_country_not_available
    by (auto simp: location_fields_def job_location_def city_country_no_comma)
  have "cell r ''city'' = Some (PStr (str ''N/A'')) \<and> cell r ''country'' = Some (PStr (str ''N/A''))"
    if "extract_row (PDict kvs) = Inr r"
    using that loc by (elim extract_row_InrE) (simp add: cell_def str_eq_iff)
  with loc show ?thesis by blast
qed

theorem no_location_or_no_comma_witness:
  "location_fields (PDict [(str ''publication_date'', PStr (str ''2023-05-01T12:00:00Z''))])
     = Inr (PStr (str ''N/A''), PStr (str ''N/A''))
   \<and> location_fields (PDict [(str ''locations'', PList [])])
     = Inr (PStr (str ''N/A''), PStr (str ''N/A''))
   \<and> comma \<notin> set (str ''Remote'')
   \<and> location_fields (job_located ''Remote'') = Inr (PStr (str ''N/A''), PStr (str ''N/A''))
   \<and> extract_row (job_located ''Remote'') = Inr (located_row ''N/A'' ''N/A'')
   \<and> cell (located_row ''N/A'' ''N/A'') ''city'' = Some (PStr (str ''N/A''))
   \<and> cell (located_row ''N/A'' ''N/A'') ''country'' = Some (PStr (str ''N/A''))"
proof -
  have 1: "location_fields (PDict [(str ''publication_date'', PStr (str ''2023-05-01T12:00:00Z''))])
     = Inr (PStr (str ''N/A''), PStr (str ''N/A''))"
    using no_location_or_no_comma
      [of "[(str ''publication_date'', PStr (str ''2023-05-01T12:00:00Z''))]"]
    by (simp add: str_eq_iff)
  have 2: "location_fields (PDict [(str ''locations'', PList [])])
     = Inr (PStr (str ''N/A''), PStr (str ''N/A''))"
    using no_location_or_no_comma [of "[(str ''locations'', PList [])]"]
    by simp
  have c: "comma \<notin> set (str ''Remote'')"
    by (simp add: str_def comma_def)
  have 3: "location_fields (job_located ''Remote'') = Inr (PStr (str ''N/A''), PStr (str ''N/A''))
     \<and> (extract_row (job_located ''Remote'') = Inr (located_row ''N/A'' ''N/A'') \<longrightarrow>
          cell (located_row ''N/A'' ''N/A'') ''city'' = Some (PStr (str ''N/A''))
          \<and> cell (located_row ''N/A'' ''N/A'') ''country'' = Some (PStr (str ''N/A'')))"
    unfolding job_located_def
    by (rule no_location_or_no_comma) (use c in \<open>simp add: str_eq_iff\<close>)
  from 1 2 c 3 remote_row show ?thesis by simp
qed

text \<open>
  C10. When \<open>locations\<close> is a list whose first element is a mapping without \<open>name\<close>,
  \<open>get('name')\<close> gives None, \<open>',' in None\<close> raises TypeError, the extraction of the
  record fails and so does \<open>transform_data\<close> on every collection that holds the record:
  there is no fallback to \<open>"N/A"\<close>.
\<close>

theorem location_without_name_raises:
  assumes "map_of kvs (str ''locations'') = Some (PList (PDict l # rest))"
    and "map_of l (str ''name'') = None"
  shows "location_fields (PDict kvs) = Inl TypeError
         \<and> (\<exists>e. extract_row (PDict kvs) = Inl e)
         \<and> (getitem_key data (str ''results'') = Inr results \<and> py_iter results = Inr jobs
              \<and> PDict kvs \<in> set jobs \<longrightarrow> (\<exists>e. transform_data data = Inl e))"
proof -
  have loc: "location_fields (PDict kvs) = Inl TypeError"
    using assms by (simp add: location_fields_def job_location_def city_country_def)
  then have row: "\<exists>e. extract_row (PDict kvs) = Inl e"
    by (auto simp: extract_row_def split: sum.splits)
  have "\<exists>e. transform_data data = Inl e"
    if "getitem_key data (str ''results'') = Inr results" "py_iter results = Inr jobs"
      "PDict kvs \<in> set jobs"
  proof -
    from row obtain e where "extract_row (PDict kvs) = Inl e" ..
    from transform_loop_Inl [OF that(3) this] show ?thesis
      by (simp add: transform_data_iter [OF that(1,2)])
  qed
  with loc row show ?thesis by blast
qed

theorem location_without_name_raises_witness:
  "location_fields (PDict [(str ''publication_date'', PStr (str ''2023-05-01T12:00:00Z'')),
                           (str ''locations'', PList [PDict [(str ''id'', PInt 3)]])])
     = Inl TypeError
   \<and> extract_row (PDict [(str ''publication_date'', PStr (str ''2023-05-01T12:00:00Z'')),
                         (str ''locations'', PList [PDict [(str ''id'', PInt 3)]])])
     = Inl TypeError
   \<and> isl (transform_data (response [job_located ''Austin,USA'',
        PDict [(str ''publication_date'', PStr (str ''2023-05-01T12:00:00Z'')),
               (str ''locations'', PList [PDict [(str ''id'', PInt 3)]])]]))"
proof -
  let ?kvs = "[(str ''publication_date'', PStr (str ''2023-05-01T12:00:00Z'')),
               (str ''locations'', PList [PDict [(str ''id'', PInt 3)]])]"
  let ?jobs = "[job_located ''Austin,USA'', PDict ?kvs]"
  have a: "map_of ?kvs (str ''locations'') = Some (PList (PDict [(str ''id'', PInt 3)] # []))"
    by (simp add: str_eq_iff)
  have b: "map_of [(str ''id'', PInt 3)] (str ''name'') = None"
    by (simp add: str_eq_iff)
  have i: "py_iter (PList ?jobs) = Inr ?jobs" by simp
  from location_without_name_raises [OF a b, of "response ?jobs" "PList ?jobs" ?jobs]
  have "location_fields (PDict ?kvs) = Inl TypeError"
    and "isl (transform_data (response ?jobs))"
    using getitem_response i by auto
  moreover have "extract_row (PDict ?kvs) = Inl TypeError"
    by (simp add: eval_defs str_def)
  ultimately show ?thesis by simp
qed

text \<open>
  C8. The destination of the upload is fixed: \<open>upload_to_s3\<close> runs exactly one
  command, \<open>aws s3 cp\<close> of the file to the path written in line 131, and its outcome
  is the outcome of that command. Bucket and folder occur neither in the command nor in
  the result, so two calls that differ in them only run the same command and return the
  same.
\<close>

theorem upload_destination_fixed:
  "fst (upload_to_s3 os file_name bucket folder)
     = [[str ''aws'', str ''s3'', str ''cp'', file_name,
         str ''s3://py-project-jobs-s3bucket/input/jobs.csv'']]
   \<and> snd (upload_to_s3 os file_name bucket folder)
     = (case os [str ''aws'', str ''s3'', str ''cp'', file_name,
                 str ''s3://py-project-jobs-s3bucket/input/jobs.csv''] of
          Exited status \<Rightarrow> Inr ()
        | NotStarted \<Rightarrow> Inl OSError)
   \<and> fst (upload_to_s3 os file_name bucket1 folder1) = [upload_command file_name bucket1 folder1]
   \<and> upload_command file_name bucket1 folder1 = upload_command file_name bucket2 folder2
   \<and> upload_to_s3 os file_name bucket1 folder1 = upload_to_s3 os file_name bucket2 folder2
   \<and> last (upload_command file_name bucket1 folder1)
       = str ''s3://py-project-jobs-s3bucket/input/jobs.csv''"
  by (simp add: upload_to_s3_def upload_command_def destination_def Let_def)

text \<open>
  C9. Whatever status the upload process exits with, zero or not, \<open>upload_to_s3\<close>
  returns normally.
\<close>

theorem upload_ignores_exit_status:
  assumes "os (upload_command file_name bucket folder) = Exited status"
  shows "snd (upload_to_s3 os file_name bucket folder) = Inr ()"
  using assms by (simp add: upload_to_s3_def)

theorem upload_ignores_exit_status_witness:
  "(\<lambda>args. Exited 1) (upload_command (str ''jobs.csv'') (str ''my-bucket'') (str ''input/''))
     = Exited 1
   \<and> snd (upload_to_s3 (\<lambda>args. Exited 1) (str ''jobs.csv'') (str ''my-bucket'') (str ''input/''))
     = Inr ()"
  using upload_ignores_exit_status
    [of "\<lambda>args. Exited 1" "str ''jobs.csv''" "str ''my-bucket''" "str ''input/''" 1]
  by simp

end
